theory Spec2Isabelle
  imports
    Main
    "HOL-Library.Signed_Division"
    "HOL-Library.Char_ord"
    "HOL-Library.List_Lexorder"
begin

section \<open>The qiniu HTTP client helper (client/client.go)\<close>

text \<open>
  A shallow embedding of \<^verbatim>\<open>client.go\<close>: the response classification
  (\<^verbatim>\<open>CallRet\<close>, \<^verbatim>\<open>ResponseError\<close>, \<^verbatim>\<open>parseError\<close>), the request
  builders (\<^verbatim>\<open>newRequest\<close>, \<^verbatim>\<open>DoRequest\<close>, \<^verbatim>\<open>DoRequestWith\<close>,
  \<^verbatim>\<open>DoRequestWithForm\<close>), the dispatch (\<^verbatim>\<open>Do\<close>, \<^verbatim>\<open>getRequestCanceler\<close>)
  and the package variable \<^verbatim>\<open>UserAgent\<close> with \<^verbatim>\<open>SetAppName\<close>.

  Go values are modelled as follows.
  \<^item> \<^verbatim>\<open>int\<close> and \<^verbatim>\<open>int64\<close> fields (\<^verbatim>\<open>StatusCode\<close>, \<^verbatim>\<open>ContentLength\<close>,
    \<^verbatim>\<open>Errno\<close>, \<^verbatim>\<open>Code\<close>) are \<open>int\<close>: the code only compares and copies them, and
    divides the status by 100, so no operation can overflow. Go's \<^verbatim>\<open>/\<close> rounds towards
    zero, which is \<open>sdiv\<close>.
  \<^item> \<^verbatim>\<open>string\<close> and \<^verbatim>\<open>[]byte\<close> are \<open>string\<close> (a list of bytes).
  \<^item> \<^verbatim>\<open>http.Header\<close>, a \<^verbatim>\<open>map[string][]string\<close>, is a map from keys to value
    lists; a key may be bound to the empty list, as in Go.
  \<^item> a value of the interface \<^verbatim>\<open>error\<close> is an element of the datatype \<open>error\<close>;
    the nil error is \<open>None\<close>.
  \<^item> a run-time panic is the outcome \<open>Panics\<close>.
  \<^item> the pointers the functions receive (\<^verbatim>\<open>*http.Response\<close> and its \<^verbatim>\<open>Body\<close>,
    \<^verbatim>\<open>*http.Request\<close>) are not nil, and a request has a header map, as every request
    made by \<^verbatim>\<open>http.NewRequest\<close> has.
\<close>

subsection \<open>Errors\<close>

record ErrorInfo =
  Err :: string
  Key :: string
  Reqid :: string
  Errno :: int
  Code :: int

text \<open>
  The error values the package handles: its own \<^verbatim>\<open>*ErrorInfo\<close>, the two errors a
  context reports, and errors made by other packages (the JSON decoder, the transport,
  the signer, \<^verbatim>\<open>http.NewRequest\<close>), which are known by their message only.
\<close>

datatype error =
    Remote ErrorInfo
  | Canceled
  | DeadlineExceeded
  | Foreign string

text \<open>The method \<^verbatim>\<open>Error()\<close>; for an \<^verbatim>\<open>*ErrorInfo\<close> it is the field \<^verbatim>\<open>Err\<close>.\<close>

fun Error :: "error \<Rightarrow> string" where
  "Error (Remote e) = Err e"
| "Error Canceled = ''context canceled''"
| "Error DeadlineExceeded = ''context deadline exceeded''"
| "Error (Foreign m) = m"

definition RpcError :: "ErrorInfo \<Rightarrow> int \<times> int \<times> string \<times> string" where
  "RpcError r = (Code r, Errno r, Key r, Err r)"

definition HttpCode :: "ErrorInfo \<Rightarrow> int" where
  "HttpCode r = Code r"

text \<open>How a call ends: it returns a value or it panics. \<open>map_outcome\<close>, which the
  datatype brings along, applies a function to the returned value.\<close>

datatype 'a outcome = Returns 'a | Panics string

subsection \<open>Headers\<close>

type_synonym header = "string \<Rightarrow> string list option"

text \<open>
  \<^verbatim>\<open>Header.Get\<close>, \<^verbatim>\<open>Header.Set\<close> and \<^verbatim>\<open>Header.Add\<close> of net/http. They
  canonicalise the key first; every key this package passes (\<^verbatim>\<open>X-Reqid\<close>,
  \<^verbatim>\<open>User-Agent\<close>, \<^verbatim>\<open>Content-Type\<close>, \<^verbatim>\<open>Authorization\<close>) is already in canonical
  form, so the key is used as it is. \<^verbatim>\<open>Get\<close> returns the first value, and the empty
  string when the key is absent or bound to no value.
\<close>

definition Header_Get :: "header \<Rightarrow> string \<Rightarrow> string" where
  "Header_Get h k = (case h k of None \<Rightarrow> [] | Some [] \<Rightarrow> [] | Some (v # vs) \<Rightarrow> v)"

definition Header_Set :: "header \<Rightarrow> string \<Rightarrow> string \<Rightarrow> header" where
  "Header_Set h k v = h(k \<mapsto> [v])"

definition Header_Add :: "header \<Rightarrow> string \<Rightarrow> string \<Rightarrow> header" where
  "Header_Add h k v = h(k \<mapsto> (case h k of None \<Rightarrow> [] | Some vs \<Rightarrow> vs) @ [v])"

text \<open>\<^verbatim>\<open>strings.HasPrefix(s, prefix)\<close> and \<^verbatim>\<open>strings.ContainsRune(s, r)\<close> for an ASCII rune.\<close>

definition HasPrefix :: "string \<Rightarrow> string \<Rightarrow> bool" where
  "HasPrefix s p = (take (length p) s = p)"

definition ContainsRune :: "string \<Rightarrow> char \<Rightarrow> bool" where
  "ContainsRune s r = (r \<in> set s)"

subsection \<open>Response bodies\<close>

text \<open>
  A response body is a stream that is read once: the bytes not yet read, how the stream
  ends after them (\<open>None\<close> for end of file, or the error the read reports), and whether
  \<^verbatim>\<open>Close\<close> has been called. The stream is finite.
\<close>

record body =
  unread :: string
  read_err :: "error option"
  is_closed :: bool

text \<open>\<^verbatim>\<open>ioutil.ReadAll\<close>: everything up to the end of the stream, and the read error if the
  stream ends in one.\<close>

definition ReadAll :: "body \<Rightarrow> string \<times> error option \<times> body" where
  "ReadAll b = (unread b, read_err b, b\<lparr>unread := []\<rparr>)"

text \<open>\<^verbatim>\<open>io.Copy(ioutil.Discard, b)\<close>, whose results the caller drops, and \<^verbatim>\<open>b.Close()\<close>.\<close>

definition Copy_Discard :: "body \<Rightarrow> body" where
  "Copy_Discard b = b\<lparr>unread := []\<rparr>"

definition Close :: "body \<Rightarrow> body" where
  "Close b = b\<lparr>is_closed := True\<rparr>"

record response =
  StatusCode :: int
  ContentLength :: int
  Header :: header
  Body :: body

subsection \<open>The JSON decoders, as parameters\<close>

text \<open>
  \<^verbatim>\<open>encoding/json\<close> belongs to Go's standard library. The functions below take its two
  uses as parameters, so every theorem about them holds for any decoder.

  \<^item> \<^verbatim>\<open>json.NewDecoder(resp.Body).Decode(ret)\<close>: a decoder gets the value the
    destination holds and the stream, and answers with its error, the value it leaves in
    the destination and the number of bytes it took from the stream.
  \<^item> \<^verbatim>\<open>json.Unmarshal(body, &ret)\<close> into the struct with the members \<^verbatim>\<open>error\<close>,
    \<^verbatim>\<open>key\<close> and \<^verbatim>\<open>errno\<close>: the decoded struct, or \<open>None\<close> when it reports an
    error.
\<close>

type_synonym 'a decoder = "'a \<Rightarrow> body \<Rightarrow> error option \<times> 'a \<times> nat"

record error_body =
  ret_Err :: string
  ret_Key :: string
  ret_Errno :: int

type_synonym unmarshal = "string \<Rightarrow> error_body option"

definition Decode :: "'a decoder \<Rightarrow> 'a \<Rightarrow> body \<Rightarrow> error option \<times> 'a \<times> body" where
  "Decode dec v b =
     (case dec v b of (err, v', n) \<Rightarrow> (err, v', b\<lparr>unread := drop n (unread b)\<rparr>))"

subsection \<open>parseError, ResponseError, CallRet\<close>

definition parseError :: "unmarshal \<Rightarrow> ErrorInfo \<Rightarrow> body \<Rightarrow> ErrorInfo \<times> body" where
  "parseError unm e r =
     (case ReadAll r of
        (bytes, err1, r') \<Rightarrow>
          (case err1 of
             Some x \<Rightarrow> (e\<lparr>Err := Error x\<rparr>, r')
           | None \<Rightarrow>
               (case unm bytes of
                  None \<Rightarrow> (e\<lparr>Err := bytes\<rparr>, r')
                | Some ret \<Rightarrow>
                    if ret_Err ret \<noteq> []
                    then (e\<lparr>Err := ret_Err ret, Key := ret_Key ret, Errno := ret_Errno ret\<rparr>, r')
                    else (e\<lparr>Err := bytes\<rparr>, r'))))"

text \<open>
  \<^verbatim>\<open>ResponseError\<close> returns the \<^verbatim>\<open>*ErrorInfo\<close> and leaves the response with the body
  as \<^verbatim>\<open>parseError\<close> read it. The index expression \<^verbatim>\<open>ct[0]\<close> panics when the key
  \<^verbatim>\<open>Content-Type\<close> is bound to an empty list.
\<close>

definition ResponseError :: "unmarshal \<Rightarrow> response \<Rightarrow> error outcome \<times> response" where
  "ResponseError unm resp =
     (let e = \<lparr>Err = [], Key = [], Reqid = Header_Get (Header resp) ''X-Reqid'',
                Errno = 0, Code = StatusCode resp\<rparr>
      in if StatusCode resp > 299 then
           if ContentLength resp \<noteq> 0 then
             (case Header resp ''Content-Type'' of
                None \<Rightarrow> (Returns (Remote e), resp)
              | Some ct \<Rightarrow>
                  (case ct of
                     [] \<Rightarrow> (Panics ''index out of range [0] with length 0'', resp)
                   | c0 # cs \<Rightarrow>
                       if HasPrefix c0 ''application/json''
                       then (case parseError unm e (Body resp) of
                               (e', b') \<Rightarrow> (Returns (Remote e'), resp\<lparr>Body := b'\<rparr>))
                       else (Returns (Remote e), resp)))
           else (Returns (Remote e), resp)
         else (Returns (Remote e), resp))"

text \<open>
  The statements of \<^verbatim>\<open>CallRet\<close> without its deferred function: the outcome (the
  returned \<^verbatim>\<open>error\<close>, or a panic), the destination and the response as they are when
  the function body is left.
\<close>

definition CallRet_body ::
  "'a decoder \<Rightarrow> unmarshal \<Rightarrow> 'a option \<Rightarrow> response \<Rightarrow> error option outcome \<times> 'a option \<times> response" where
  "CallRet_body dec unm ret resp =
     (if StatusCode resp sdiv 100 = 2 then
        (case (case ret of
                 None \<Rightarrow> (None, ret, resp)
               | Some v \<Rightarrow>
                   if ContentLength resp \<noteq> 0
                   then (case Decode dec v (Body resp) of
                           (err, v', b') \<Rightarrow> (err, Some v', resp\<lparr>Body := b'\<rparr>))
                   else (None, ret, resp)) of
           (err, ret1, resp1) \<Rightarrow>
             (case err of
                Some x \<Rightarrow> (Returns (Some x), ret1, resp1)
              | None \<Rightarrow>
                  if StatusCode resp = 200 then (Returns None, ret1, resp1)
                  else (case ResponseError unm resp1 of
                          (out, resp2) \<Rightarrow> (map_outcome Some out, ret1, resp2))))
      else (case ResponseError unm resp of
              (out, resp2) \<Rightarrow> (map_outcome Some out, ret, resp2)))"

record 'a call =
  result :: "error option outcome"
  ret_after :: "'a option"
  resp_after :: response

text \<open>
  \<^verbatim>\<open>CallRet\<close>: the deferred function, \<^verbatim>\<open>io.Copy(ioutil.Discard, resp.Body)\<close> and then
  \<^verbatim>\<open>resp.Body.Close()\<close>, runs when the body is left, by a return or by a panic. The
  destination \<^verbatim>\<open>ret\<close> is \<open>None\<close> for nil and \<open>Some v\<close> for a pointer to the value
  \<open>v\<close>. The parameter \<^verbatim>\<open>ctx\<close> is left out: the function does not use it.
\<close>

definition CallRet :: "'a decoder \<Rightarrow> unmarshal \<Rightarrow> 'a option \<Rightarrow> response \<Rightarrow> 'a call" where
  "CallRet dec unm ret resp =
     (case CallRet_body dec unm ret resp of
        (out, ret', resp') \<Rightarrow>
          \<lparr>result = out, ret_after = ret',
           resp_after = resp'\<lparr>Body := Close (Copy_Discard (Body resp'))\<rparr>\<rparr>)"

subsection \<open>Requests and contexts\<close>

text \<open>
  \<^verbatim>\<open>strings.Cut(s, sep)\<close> for a one-byte separator: the text before the first
  separator, the text after it, and whether there is one.
\<close>

definition Cut :: "string \<Rightarrow> char \<Rightarrow> string \<times> string \<times> bool" where
  "Cut s sep =
     (takeWhile (\<lambda>c. c \<noteq> sep) s, tl (dropWhile (\<lambda>c. c \<noteq> sep) s), sep \<in> set s)"

text \<open>
  A \<^verbatim>\<open>*url.URL\<close> as far as this package can tell its parts apart: the text before
  the query (scheme, authority and path, as written), \<^verbatim>\<open>ForceQuery\<close>, \<^verbatim>\<open>RawQuery\<close>
  and the fragment as written. \<^verbatim>\<open>url.Parse\<close> first cuts the fragment off at the first
  \<^verbatim>\<open>#\<close>; of what is left, a single \<^verbatim>\<open>?\<close> at the very end sets \<^verbatim>\<open>ForceQuery\<close>,
  and otherwise the text after the first \<^verbatim>\<open>?\<close> is \<^verbatim>\<open>RawQuery\<close>. Whether the parts
  are well formed is the business of \<open>NewRequest_err\<close> below.
\<close>

record URL =
  url_before_query :: string
  ForceQuery :: bool
  RawQuery :: string
  url_fragment :: string

definition url_Parse :: "string \<Rightarrow> URL" where
  "url_Parse rawURL =
     (case Cut rawURL CHR ''#'' of
        (u, frag, found) \<Rightarrow>
          if u \<noteq> [] \<and> last u = CHR ''?'' \<and> count_list u CHR ''?'' = 1
          then \<lparr>url_before_query = butlast u, ForceQuery = True, RawQuery = [],
                 url_fragment = frag\<rparr>
          else (case Cut u CHR ''?'' of
                  (rest, query, found') \<Rightarrow>
                    \<lparr>url_before_query = rest, ForceQuery = False, RawQuery = query,
                     url_fragment = frag\<rparr>))"

text \<open>
  The readers this package hands to \<^verbatim>\<open>http.NewRequest\<close>, each with the bytes it
  yields: a \<^verbatim>\<open>*strings.Reader\<close>, a \<^verbatim>\<open>*bytes.Reader\<close>, or any other
  \<^verbatim>\<open>io.Reader\<close> a caller of \<^verbatim>\<open>DoRequestWith\<close> passes. The body of a request is
  \<^verbatim>\<open>http.NoBody\<close> or a reader of some bytes; the nil body is \<open>None\<close>.
\<close>

datatype reader = StringsReader string | BytesReader string | OtherReader string

datatype req_body = NoBody | ReadCloser string

fun body_bytes :: "req_body \<Rightarrow> string" where
  "body_bytes NoBody = []"
| "body_bytes (ReadCloser s) = s"

text \<open>
  A request as this package builds it: the method, the parsed URL, the header, the body
  and the field \<^verbatim>\<open>ContentLength\<close>.
\<close>

record request =
  req_Method :: string
  req_URL :: URL
  req_Header :: header
  req_Body :: "req_body option"
  req_ContentLength :: int

text \<open>
  Modelled from the spec: the packages \<^verbatim>\<open>auth\<close> and \<^verbatim>\<open>reqid\<close> are not among the
  source files. The spec describes the context as a carrier of an optional credentials
  value with a signing capability, an optional request id, and the cancellation signal.
  \<open>ctx_Err\<close> is \<^verbatim>\<open>ctx.Err()\<close> at the time \<^verbatim>\<open>Do\<close> polls \<^verbatim>\<open>ctx.Done()\<close>;
  \<open>ctx_Err_in_flight\<close> is \<open>Some e\<close> when the second \<^verbatim>\<open>select\<close> of \<^verbatim>\<open>Do\<close>
  takes the case \<^verbatim>\<open>ctx.Done()\<close>, with \<^verbatim>\<open>ctx.Err()\<close> then being \<open>e\<close>, and \<open>None\<close>
  when it takes the completed request. \<open>SignRequest\<close> of the credentials answers with
  the token or an error.
\<close>

record Context =
  ctx_Err :: "error option"
  ctx_Err_in_flight :: "error option"
  ReqidFromContext :: "string option"
  CredentialsFromContext :: "(request \<Rightarrow> error + string) option"

text \<open>\<^verbatim>\<open>context.Background()\<close>: never cancelled, no values.\<close>

definition Background :: Context where
  "Background = \<lparr>ctx_Err = None, ctx_Err_in_flight = None, ReqidFromContext = None,
     CredentialsFromContext = None\<rparr>"

text \<open>
  What the package takes from its surroundings, for objects of a type \<open>'o\<close>:
  the check \<^verbatim>\<open>http.NewRequest\<close> makes of a method and a URL (its error, if any), the
  default transport, which objects implement \<^verbatim>\<open>requestCanceler\<close>, and for an object
  that implements \<^verbatim>\<open>nestedObjectGetter\<close> the object \<^verbatim>\<open>NestedObject()\<close> returns.
\<close>

record 'o world =
  NewRequest_err :: "string \<Rightarrow> string \<Rightarrow> error option"
  DefaultTransport :: 'o
  requestCanceler :: "'o \<Rightarrow> bool"
  NestedObject :: "'o \<Rightarrow> 'o option"

text \<open>
  A \<^verbatim>\<open>Client\<close>: the field \<^verbatim>\<open>Transport\<close> of the embedded \<^verbatim>\<open>*http.Client\<close> (\<open>None\<close>
  for nil) and what its method \<^verbatim>\<open>Do\<close> answers for a request; the flag tells whether
  \<^verbatim>\<open>CancelRequest\<close> is called while the request is in flight.
\<close>

record 'o Client =
  Transport :: "'o option"
  http_Do :: "request \<Rightarrow> bool \<Rightarrow> response option \<times> error option"

text \<open>The package variable \<^verbatim>\<open>UserAgent\<close> and its initial value.\<close>

record globals =
  UserAgent :: string

definition init_globals :: globals where
  "init_globals = \<lparr>UserAgent = ''Golang qiniu/client package''\<rparr>"

text \<open>
  \<^verbatim>\<open>conf.Version\<close> (the package \<^verbatim>\<open>conf\<close> is not among the source files),
  \<^verbatim>\<open>runtime.GOOS\<close>, \<^verbatim>\<open>runtime.GOARCH\<close> and \<^verbatim>\<open>runtime.Version()\<close> are parameters.
\<close>

record build =
  conf_Version :: string
  GOOS :: string
  GOARCH :: string
  runtime_Version :: string

text \<open>\<^verbatim>\<open>SetAppName\<close>: the \<^verbatim>\<open>fmt.Sprintf\<close> with five \<^verbatim>\<open>%s\<close> verbs; the error returned
  is always nil.\<close>

definition SetAppName :: "build \<Rightarrow> string \<Rightarrow> globals \<Rightarrow> error option \<times> globals" where
  "SetAppName b userApp g =
     (None,
      g\<lparr>UserAgent := ''QiniuGo/'' @ conf_Version b @ '' ('' @ GOOS b @ ''; '' @ GOARCH b
           @ ''; '' @ userApp @ '') '' @ runtime_Version b\<rparr>)"

text \<open>The character set the comment on \<^verbatim>\<open>SetAppName\<close> names:
  \<^verbatim>\<open>[A-Za-z0-9_\ \-\.]*\<close>.\<close>

definition userApp_char :: "char \<Rightarrow> bool" where
  "userApp_char c =
     (let n = (of_char c :: nat)
      in (65 \<le> n \<and> n \<le> 90) \<or> (97 \<le> n \<and> n \<le> 122) \<or> (48 \<le> n \<and> n \<le> 57)
         \<or> c = CHR ''_'' \<or> c = CHR '' '' \<or> c = CHR ''-'' \<or> c = CHR ''.'')"

definition userApp_wellformed :: "string \<Rightarrow> bool" where
  "userApp_wellformed s = list_all userApp_char s"

subsection \<open>Building requests\<close>

text \<open>
  \<^verbatim>\<open>http.NewRequest\<close> of net/http. It fails when the method or the URL is refused;
  an empty method means GET; the URL is parsed. For a reader of a string or of bytes the
  length goes to \<^verbatim>\<open>ContentLength\<close>, and when that length is 0 the body becomes
  \<^verbatim>\<open>http.NoBody\<close>; for any other reader \<^verbatim>\<open>ContentLength\<close> stays 0.
\<close>

fun NewRequest_body :: "reader \<Rightarrow> req_body \<times> int" where
  "NewRequest_body (StringsReader s) =
     (if s = [] then NoBody else ReadCloser s, int (length s))"
| "NewRequest_body (BytesReader s) =
     (if s = [] then NoBody else ReadCloser s, int (length s))"
| "NewRequest_body (OtherReader s) = (ReadCloser s, 0)"

definition http_NewRequest ::
  "'o world \<Rightarrow> string \<Rightarrow> string \<Rightarrow> reader option \<Rightarrow> error + request" where
  "http_NewRequest w method url body =
     (case NewRequest_err w method url of
        Some e \<Rightarrow> Inl e
      | None \<Rightarrow>
          Inr \<lparr>req_Method = (if method = [] then ''GET'' else method),
               req_URL = url_Parse url,
               req_Header = Map.empty,
               req_Body = (case body of None \<Rightarrow> None | Some rd \<Rightarrow> Some (fst (NewRequest_body rd))),
               req_ContentLength = (case body of None \<Rightarrow> 0 | Some rd \<Rightarrow> snd (NewRequest_body rd))\<rparr>)"

definition newRequest ::
  "'o world \<Rightarrow> Context \<Rightarrow> string \<Rightarrow> string \<Rightarrow> header option \<Rightarrow> reader option \<Rightarrow> error + request" where
  "newRequest w ctx method reqUrl headers body =
     (case http_NewRequest w method reqUrl body of
        Inl err \<Rightarrow> Inl err
      | Inr req0 \<Rightarrow>
          (let req = req0\<lparr>req_Header := (case headers of None \<Rightarrow> Map.empty | Some h \<Rightarrow> h)\<rparr>
           in case CredentialsFromContext ctx of
                None \<Rightarrow> Inr req
              | Some SignRequest \<Rightarrow>
                  (case SignRequest req of
                     Inl signErr \<Rightarrow> Inl signErr
                   | Inr token \<Rightarrow>
                       Inr (req\<lparr>req_Header :=
                              Header_Add (req_Header req) ''Authorization'' (''QBox '' @ token)\<rparr>))))"

subsection \<open>Dispatch\<close>

text \<open>
  The loop of \<^verbatim>\<open>getRequestCanceler\<close> walks the chain of nested objects and ends at a
  canceler or at an object that exposes no nested object. On a chain that never ends it
  does not return, which is the value \<open>None\<close>. The result \<open>Some None\<close> is
  \<^verbatim>\<open>ok == false\<close>, and \<open>Some (Some rc)\<close> is the canceler \<open>rc\<close>.
\<close>

partial_function (option) nested_canceler ::
  "('o \<Rightarrow> bool) \<Rightarrow> ('o \<Rightarrow> 'o option) \<Rightarrow> 'o \<Rightarrow> 'o option option" where
  "nested_canceler isrc nestedObj p =
     (case nestedObj p of
        None \<Rightarrow> Some None
      | Some q \<Rightarrow> if isrc q then Some (Some q) else nested_canceler isrc nestedObj q)"

definition getRequestCanceler :: "'o world \<Rightarrow> 'o \<Rightarrow> 'o option option" where
  "getRequestCanceler w tp =
     (if requestCanceler w tp then Some (Some tp)
      else nested_canceler (requestCanceler w) (NestedObject w) tp)"

datatype 'o event = ClientDo request | CancelRequest 'o request

text \<open>
  What a call of \<^verbatim>\<open>Do\<close> leaves behind: the request, whose header the call writes
  to; the calls made on the client and the transport, in order; and the returned pair
  \<^verbatim>\<open>(resp, err)\<close>, which is \<open>None\<close> when the call does not return.
\<close>

record 'o dispatch =
  req_after :: request
  events :: "'o event list"
  returned :: "(response option \<times> error option) option"

definition Do :: "'o world \<Rightarrow> globals \<Rightarrow> 'o Client \<Rightarrow> Context option \<Rightarrow> request \<Rightarrow> 'o dispatch" where
  "Do w g r ctx0 req0 =
     (let ctx = (case ctx0 of None \<Rightarrow> Background | Some c \<Rightarrow> c);
          req1 = (case ReqidFromContext ctx of
                    Some reqId \<Rightarrow> req0\<lparr>req_Header := Header_Set (req_Header req0) ''X-Reqid'' reqId\<rparr>
                  | None \<Rightarrow> req0);
          req = (case req_Header req1 ''User-Agent'' of
                   None \<Rightarrow> req1\<lparr>req_Header := Header_Set (req_Header req1) ''User-Agent'' (UserAgent g)\<rparr>
                 | Some ua \<Rightarrow> req1);
          transport = (case Transport r of None \<Rightarrow> DefaultTransport w | Some t \<Rightarrow> t)
      in case ctx_Err ctx of
           Some err \<Rightarrow> \<lparr>req_after = req, events = [], returned = Some (None, Some err)\<rparr>
         | None \<Rightarrow>
             (case getRequestCanceler w transport of
                None \<Rightarrow> \<lparr>req_after = req, events = [], returned = None\<rparr>
              | Some (Some tr) \<Rightarrow>
                  (case ctx_Err_in_flight ctx of
                     None \<Rightarrow>
                       \<lparr>req_after = req, events = [ClientDo req],
                        returned = Some (http_Do r req False)\<rparr>
                   | Some err \<Rightarrow>
                       \<lparr>req_after = req, events = [ClientDo req, CancelRequest tr req],
                        returned = Some (fst (http_Do r req True), Some err)\<rparr>)
              | Some None \<Rightarrow>
                  \<lparr>req_after = req, events = [ClientDo req],
                   returned = Some (http_Do r req False)\<rparr>))"

definition DoRequest ::
  "'o world \<Rightarrow> globals \<Rightarrow> 'o Client \<Rightarrow> Context \<Rightarrow> string \<Rightarrow> string \<Rightarrow> header option
     \<Rightarrow> error + 'o dispatch" where
  "DoRequest w g r ctx method reqUrl headers =
     (case newRequest w ctx method reqUrl headers None of
        Inl err \<Rightarrow> Inl err
      | Inr req \<Rightarrow> Inr (Do w g r (Some ctx) req))"

definition DoRequestWith ::
  "'o world \<Rightarrow> globals \<Rightarrow> 'o Client \<Rightarrow> Context \<Rightarrow> string \<Rightarrow> string \<Rightarrow> header option
     \<Rightarrow> reader option \<Rightarrow> int \<Rightarrow> error + 'o dispatch" where
  "DoRequestWith w g r ctx method reqUrl headers body bodyLength =
     (case newRequest w ctx method reqUrl headers body of
        Inl err \<Rightarrow> Inl err
      | Inr req \<Rightarrow> Inr (Do w g r (Some ctx) (req\<lparr>req_ContentLength := bodyLength\<rparr>)))"

subsection \<open>Form encoding\<close>

text \<open>
  \<^verbatim>\<open>url.QueryEscape\<close> and \<^verbatim>\<open>url.Values.Encode\<close> of net/url. Letters, digits and
  \<^verbatim>\<open>- _ . ~\<close> stay, a space becomes \<^verbatim>\<open>+\<close>, every other byte becomes \<^verbatim>\<open>%XX\<close> in
  upper-case hexadecimal. \<^verbatim>\<open>Encode\<close> sorts the keys and writes \<^verbatim>\<open>key=value\<close> for
  every value of every key, joined by \<^verbatim>\<open>&\<close>. The Go map \<^verbatim>\<open>map[string][]string\<close>
  is an association list read with \<open>map_of\<close>.
\<close>

definition shouldEscape :: "char \<Rightarrow> bool" where
  "shouldEscape c =
     (let n = (of_char c :: nat)
      in \<not> ((97 \<le> n \<and> n \<le> 122) \<or> (65 \<le> n \<and> n \<le> 90) \<or> (48 \<le> n \<and> n \<le> 57)
             \<or> c = CHR ''-'' \<or> c = CHR ''_'' \<or> c = CHR ''.'' \<or> c = CHR ''~''))"

definition upperhex :: string where
  "upperhex = ''0123456789ABCDEF''"

definition escape_char :: "char \<Rightarrow> string" where
  "escape_char c =
     (if c = CHR '' '' then ''+''
      else if shouldEscape c
        then [CHR ''%'', upperhex ! ((of_char c :: nat) div 16), upperhex ! ((of_char c :: nat) mod 16)]
      else [c])"

definition QueryEscape :: "string \<Rightarrow> string" where
  "QueryEscape s = concat (map escape_char s)"

fun Join :: "string list \<Rightarrow> string \<Rightarrow> string" where
  "Join [] sep = []"
| "Join [x] sep = x"
| "Join (x # y # ys) sep = x @ sep @ Join (y # ys) sep"

definition Encode :: "(string \<times> string list) list \<Rightarrow> string" where
  "Encode v =
     Join (concat (map (\<lambda>k. map (\<lambda>x. QueryEscape k @ ''='' @ QueryEscape x)
                                 (case map_of v k of None \<Rightarrow> [] | Some vs \<Rightarrow> vs))
                       (sort (remdups (map fst v))))) ''&''"

definition DoRequestWithForm ::
  "'o world \<Rightarrow> globals \<Rightarrow> 'o Client \<Rightarrow> Context \<Rightarrow> string \<Rightarrow> string \<Rightarrow> header option
     \<Rightarrow> (string \<times> string list) list \<Rightarrow> error + 'o dispatch" where
  "DoRequestWithForm w g r ctx method reqUrl headers data =
     (let headers1 = Header_Add (case headers of None \<Rightarrow> Map.empty | Some h \<Rightarrow> h)
                       ''Content-Type'' ''application/x-www-form-urlencoded'';
          requestData = Encode data
      in if method = ''GET'' \<or> method = ''HEAD'' \<or> method = ''DELETE'' then
           DoRequest w g r ctx method
             ((if ContainsRune reqUrl CHR ''?'' then reqUrl @ ''&'' else reqUrl @ ''?'') @ requestData)
             (Some headers1)
         else DoRequestWith w g r ctx method reqUrl (Some headers1)
                (Some (StringsReader requestData)) (int (length requestData)))"

subsection \<open>Two concrete decoders\<close>

text \<open>
  The theorems below hold for every decoder. To run them on concrete responses, two
  small decoders stand in for \<^verbatim>\<open>encoding/json\<close>. Both accept a fragment of JSON
  only and report an error on everything else.

  \<open>decode_bool\<close> decodes into a destination of type \<^verbatim>\<open>*bool\<close>: it accepts the
  documents \<^verbatim>\<open>true\<close> and \<^verbatim>\<open>false\<close>.
\<close>

definition decode_bool :: "bool decoder" where
  "decode_bool v b =
     (if unread b = ''true'' then (None, True, 4)
      else if unread b = ''false'' then (None, False, 5)
      else (Some (Foreign ''json: cannot decode the body into a bool''), v, length (unread b)))"

text \<open>
  \<open>unmarshal_flat\<close> decodes one flat JSON object into the struct of \<^verbatim>\<open>parseError\<close>.
  Member values are strings without escape sequences or unsigned decimal numbers; the
  members \<^verbatim>\<open>error\<close> and \<^verbatim>\<open>key\<close> must be strings and \<^verbatim>\<open>errno\<close> a number; other
  members are skipped; white space may separate the tokens.
\<close>

datatype token = LBrace | RBrace | Colon | Comma | TStr string | TNum int

datatype mode = Outside | InString string | InNumber int

definition is_digit :: "char \<Rightarrow> bool" where
  "is_digit c = (48 \<le> (of_char c :: nat) \<and> (of_char c :: nat) \<le> 57)"

definition digit_val :: "char \<Rightarrow> int" where
  "digit_val c = int (of_char c) - 48"

definition is_space :: "char \<Rightarrow> bool" where
  "is_space c = (c = CHR '' '' \<or> c = CHR 0x09 \<or> c = CHR 0x0A \<or> c = CHR 0x0D)"

fun cons_tok :: "token \<Rightarrow> token list option \<Rightarrow> token list option" where
  "cons_tok t None = None"
| "cons_tok t (Some ts) = Some (t # ts)"

fun lex :: "mode \<Rightarrow> string \<Rightarrow> token list option" where
  "lex Outside [] = Some []"
| "lex (InString acc) [] = None"
| "lex (InNumber n) [] = Some [TNum n]"
| "lex Outside (c # cs) =
     (if c = CHR ''{'' then cons_tok LBrace (lex Outside cs)
      else if c = CHR ''}'' then cons_tok RBrace (lex Outside cs)
      else if c = CHR '':'' then cons_tok Colon (lex Outside cs)
      else if c = CHR '','' then cons_tok Comma (lex Outside cs)
      else if c = CHR 0x22 then lex (InString []) cs
      else if is_digit c then lex (InNumber (digit_val c)) cs
      else if is_space c then lex Outside cs
      else None)"
| "lex (InString acc) (c # cs) =
     (if c = CHR 0x22 then cons_tok (TStr (rev acc)) (lex Outside cs)
      else if c = CHR 0x5C \<or> of_char c < (32::nat) then None
      else lex (InString (c # acc)) cs)"
| "lex (InNumber n) (c # cs) =
     (if is_digit c then lex (InNumber (10 * n + digit_val c)) cs
      else if c = CHR ''}'' then cons_tok (TNum n) (cons_tok RBrace (lex Outside cs))
      else if c = CHR '','' then cons_tok (TNum n) (cons_tok Comma (lex Outside cs))
      else if is_space c then cons_tok (TNum n) (lex Outside cs)
      else None)"

fun assign :: "string \<Rightarrow> token \<Rightarrow> error_body \<Rightarrow> error_body option" where
  "assign k (TStr s) r =
     (if k = ''error'' then Some (r\<lparr>ret_Err := s\<rparr>)
      else if k = ''key'' then Some (r\<lparr>ret_Key := s\<rparr>)
      else if k = ''errno'' then None
      else Some r)"
| "assign k (TNum n) r =
     (if k = ''errno'' then Some (r\<lparr>ret_Errno := n\<rparr>)
      else if k = ''error'' \<or> k = ''key'' then None
      else Some r)"
| "assign k t r = None"

fun members :: "token list \<Rightarrow> error_body \<Rightarrow> error_body option" where
  "members (TStr k # Colon # v # rest) r =
     (case assign k v r of
        None \<Rightarrow> None
      | Some r' \<Rightarrow>
          (case rest of
             [RBrace] \<Rightarrow> Some r'
           | Comma # rest' \<Rightarrow> members rest' r'
           | _ \<Rightarrow> None))"
| "members ts r = None"

definition unmarshal_flat :: unmarshal where
  "unmarshal_flat s =
     (case lex Outside s of
        None \<Rightarrow> None
      | Some ts \<Rightarrow>
          (case ts of
             [LBrace, RBrace] \<Rightarrow> Some \<lparr>ret_Err = [], ret_Key = [], ret_Errno = 0\<rparr>
           | LBrace # ms \<Rightarrow> members ms \<lparr>ret_Err = [], ret_Key = [], ret_Errno = 0\<rparr>
           | _ \<Rightarrow> None))"

subsection \<open>Concrete responses, requests and surroundings\<close>

text \<open>
  \<open>response_of\<close> is a response as the HTTP client hands it over: unread, not closed,
  and with \<^verbatim>\<open>ContentLength\<close> the length of the content.
\<close>

definition response_of :: "int \<Rightarrow> header \<Rightarrow> string \<Rightarrow> response" where
  "response_of status h content =
     \<lparr>StatusCode = status, ContentLength = int (length content), Header = h,
      Body = \<lparr>unread = content, read_err = None, is_closed = False\<rparr>\<rparr>"

text \<open>The error body of the service that the spec quotes.\<close>

definition bad_token_json :: string where
  \<open>bad_token_json = ''{"error":"bad token","key":"k1","errno":612}''\<close>

text \<open>
  Surroundings to run the dispatch in: objects are numbered; the default transport
  \<open>0\<close> wraps \<open>1\<close>, which wraps \<open>2\<close>, the only canceler; \<^verbatim>\<open>http.NewRequest\<close>
  refuses a method with a space in it; the client answers 200 with an empty body, or an
  error when the request is cancelled in flight.
\<close>

definition example_world :: "nat world" where
  "example_world =
     \<lparr>NewRequest_err =
        (\<lambda>method url. if CHR '' '' \<in> set method
                        then Some (Foreign ''net/http: invalid method'') else None),
      DefaultTransport = 0,
      requestCanceler = (\<lambda>p. p = 2),
      NestedObject = (\<lambda>p. if p < 2 then Some (Suc p) else None)\<rparr>"

definition example_client :: "nat Client" where
  "example_client =
     \<lparr>Transport = None,
      http_Do = (\<lambda>req cancelled.
        if cancelled then (None, Some (Foreign ''net/http: request canceled''))
        else (Some (response_of 200 Map.empty []), None))\<rparr>"

definition example_build :: build where
  "example_build =
     \<lparr>conf_Version = ''7.0.0'', GOOS = ''linux'', GOARCH = ''amd64'',
      runtime_Version = ''go1.13''\<rparr>"

definition example_request :: request where
  "example_request =
     \<lparr>req_Method = ''GET'',
      req_URL = \<lparr>url_before_query = ''http://x/y'', ForceQuery = False, RawQuery = [],
                 url_fragment = []\<rparr>,
      req_Header = Map.empty, req_Body = None, req_ContentLength = 0\<rparr>"

section \<open>Auxiliary facts\<close>

text \<open>Go's \<^verbatim>\<open>StatusCode/100 == 2\<close> holds exactly for the statuses 200 to 299.\<close>

lemma status_2xx: "((s::int) sdiv 100 = 2) = (200 \<le> s \<and> s \<le> 299)"
proof (cases "0 \<le> s")
  case True
  then have "s sdiv 100 = s div 100"
    by (simp add: signed_divide_int_def sgn_if)
  then show ?thesis by auto
next
  case False
  then have "s sdiv 100 = - (\<bar>s\<bar> div 100)"
    by (simp add: signed_divide_int_def sgn_if)
  moreover have "0 \<le> \<bar>s\<bar> div 100" by simp
  ultimately show ?thesis using False by auto
qed

text \<open>Below 300 \<^verbatim>\<open>ResponseError\<close> reads nothing: the error holds the status and the
  request id only.\<close>

lemma ResponseError_not_above_299:
  "StatusCode resp \<le> 299 \<Longrightarrow>
   ResponseError unm resp =
     (Returns (Remote \<lparr>Err = [], Key = [], Reqid = Header_Get (Header resp) ''X-Reqid'',
                        Errno = 0, Code = StatusCode resp\<rparr>), resp)"
  by (simp add: ResponseError_def)

text \<open>The two concrete decoders on the documents used below.\<close>

lemma unmarshal_bad_token:
  "unmarshal_flat bad_token_json =
     Some \<lparr>ret_Err = ''bad token'', ret_Key = ''k1'', ret_Errno = 612\<rparr>"
  by (simp add: unmarshal_flat_def bad_token_json_def is_digit_def digit_val_def is_space_def)

lemma unmarshal_internal_failure: "unmarshal_flat ''internal failure'' = None"
  by (simp add: unmarshal_flat_def is_digit_def is_space_def)

lemma unmarshal_empty_error:
  \<open>unmarshal_flat ''{"error":"","key":"k2"}'' =
     Some \<lparr>ret_Err = [], ret_Key = ''k2'', ret_Errno = 0\<rparr>\<close>
  by (simp add: unmarshal_flat_def is_digit_def is_space_def)

lemmas eval_CallRet =
  CallRet_def CallRet_body_def ResponseError_def parseError_def ReadAll_def Decode_def
  decode_bool_def response_of_def Header_Get_def HasPrefix_def Close_def Copy_Discard_def
  status_2xx

text \<open>
  \<^verbatim>\<open>Do\<close> writes to the header of the request before anything else, so the request it
  leaves behind is the same on every path, also when the call does not return.
\<close>

lemma req_after_Do:
  "req_after (Do w g r ctx0 req0) =
     (let ctx = (case ctx0 of None \<Rightarrow> Background | Some c \<Rightarrow> c);
          req1 = (case ReqidFromContext ctx of
                    Some reqId \<Rightarrow> req0\<lparr>req_Header := Header_Set (req_Header req0) ''X-Reqid'' reqId\<rparr>
                  | None \<Rightarrow> req0)
      in case req_Header req1 ''User-Agent'' of
           None \<Rightarrow> req1\<lparr>req_Header := Header_Set (req_Header req1) ''User-Agent'' (UserAgent g)\<rparr>
         | Some ua \<Rightarrow> req1)"
proof -
  define ctx where "ctx = (case ctx0 of None \<Rightarrow> Background | Some c \<Rightarrow> c)"
  define req1 where
    "req1 = (case ReqidFromContext ctx of
               Some reqId \<Rightarrow> req0\<lparr>req_Header := Header_Set (req_Header req0) ''X-Reqid'' reqId\<rparr>
             | None \<Rightarrow> req0)"
  define req where
    "req = (case req_Header req1 ''User-Agent'' of
              None \<Rightarrow> req1\<lparr>req_Header := Header_Set (req_Header req1) ''User-Agent'' (UserAgent g)\<rparr>
            | Some ua \<Rightarrow> req1)"
  have "req_after (Do w g r ctx0 req0) = req"
    unfolding Do_def Let_def ctx_def [symmetric] req1_def [symmetric] req_def [symmetric]
    by (simp split: option.splits)
  then show ?thesis
    unfolding Let_def req_def req1_def ctx_def .
qed

lemma Do_keeps:
  "req_URL (req_after (Do w g r ctx req)) = req_URL req
   \<and> req_Body (req_after (Do w g r ctx req)) = req_Body req
   \<and> req_ContentLength (req_after (Do w g r ctx req)) = req_ContentLength req
   \<and> req_Method (req_after (Do w g r ctx req)) = req_Method req
   \<and> req_Header (req_after (Do w g r ctx req)) ''Content-Type'' = req_Header req ''Content-Type''"
  by (simp add: req_after_Do Let_def Header_Set_def split: option.splits)

lemma newRequest_Inr:
  assumes "newRequest w ctx method reqUrl headers body = Inr req"
  shows "req_URL req = url_Parse reqUrl
         \<and> req_Body req = (case body of None \<Rightarrow> None | Some rd \<Rightarrow> Some (fst (NewRequest_body rd)))
         \<and> req_ContentLength req = (case body of None \<Rightarrow> 0 | Some rd \<Rightarrow> snd (NewRequest_body rd))
         \<and> req_Header req ''Content-Type'' =
             (case headers of None \<Rightarrow> None | Some h \<Rightarrow> h ''Content-Type'')"
  using assms
  by (auto simp: newRequest_def http_NewRequest_def Let_def Header_Add_def
      split: option.splits sum.splits)

text \<open>The unwrapping of the example transport ends at the canceler \<open>2\<close>.\<close>

lemma example_canceler: "getRequestCanceler example_world 0 = Some (Some 2)"
  apply (simp add: getRequestCanceler_def example_world_def)
  apply (subst nested_canceler.simps)
  apply simp
  apply (subst nested_canceler.simps)
  apply simp
  done

text \<open>\<^verbatim>\<open>strings.Cut\<close> on a text without the separator, at the first separator, and on
  a text that is extended behind its first separator.\<close>

lemma Cut_absent: "sep \<notin> set s \<Longrightarrow> Cut s sep = (s, [], False)"
  by (induction s) (auto simp: Cut_def)

lemma Cut_first: "sep \<notin> set a \<Longrightarrow> Cut (a @ sep # b) sep = (a, b, True)"
  by (induction a) (auto simp: Cut_def)

lemma Cut_append:
  "sep \<in> set a \<Longrightarrow> Cut (a @ b) sep = (fst (Cut a sep), fst (snd (Cut a sep)) @ b, True)"
  by (induction a) (auto simp: Cut_def)

lemma count_list_0: "count_list xs x = 0 \<longleftrightarrow> x \<notin> set xs"
  by (induction xs) auto

lemma single_at_end:
  assumes "u \<noteq> []" and "last u = sep" and "count_list u sep = 1"
  shows "Cut u sep = (butlast u, [], True)"
proof -
  from assms(1,2) have u: "u = butlast u @ [sep]"
    by (metis append_butlast_last_id)
  have "count_list (butlast u @ [sep]) sep = count_list (butlast u) sep + 1"
    by simp
  with u assms(3) have "count_list (butlast u) sep = 0"
    by simp
  then have "sep \<notin> set (butlast u)"
    by (simp add: count_list_0)
  then have "Cut (butlast u @ sep # []) sep = (butlast u, [], True)"
    by (rule Cut_first)
  with u show ?thesis by simp
qed

text \<open>
  The two ways \<^verbatim>\<open>url.Parse\<close> reads a text without \<^verbatim>\<open>#\<close>. In both, the text before
  the query and the query are the two sides of the first \<^verbatim>\<open>?\<close>.
\<close>

lemma url_Parse_force:
  assumes "CHR ''#'' \<notin> set u" and "u \<noteq> [] \<and> last u = CHR ''?'' \<and> count_list u CHR ''?'' = 1"
  shows "url_Parse u =
           \<lparr>url_before_query = butlast u, ForceQuery = True, RawQuery = [], url_fragment = []\<rparr>"
  using assms by (simp add: url_Parse_def Cut_absent)

lemma url_Parse_cut:
  assumes "CHR ''#'' \<notin> set u"
    and "\<not> (u \<noteq> [] \<and> last u = CHR ''?'' \<and> count_list u CHR ''?'' = 1)"
  shows "url_Parse u =
           \<lparr>url_before_query = fst (Cut u CHR ''?''), ForceQuery = False,
            RawQuery = fst (snd (Cut u CHR ''?'')), url_fragment = []\<rparr>"
  using assms by (auto simp: url_Parse_def Cut_absent split: prod.splits)

lemma url_Parse_parts:
  assumes "CHR ''#'' \<notin> set u"
  shows "url_before_query (url_Parse u) = fst (Cut u CHR ''?'')
         \<and> RawQuery (url_Parse u) = fst (snd (Cut u CHR ''?''))
         \<and> url_fragment (url_Parse u) = []"
proof (cases "u \<noteq> [] \<and> last u = CHR ''?'' \<and> count_list u CHR ''?'' = 1")
  case True
  then have "Cut u CHR ''?'' = (butlast u, [], True)"
    by (simp add: single_at_end)
  with True show ?thesis
    by (simp add: url_Parse_force [OF assms])
next
  case False
  then show ?thesis
    by (simp add: url_Parse_cut [OF assms])
qed

text \<open>How the URL that \<^verbatim>\<open>DoRequestWithForm\<close> writes for GET, HEAD and DELETE is
  parsed, when neither the given URL nor the text added to it holds a \<^verbatim>\<open>#\<close>.\<close>

lemma url_Parse_with_query:
  assumes "CHR ''#'' \<notin> set reqUrl" and "CHR ''#'' \<notin> set g" and "CHR ''?'' \<in> set reqUrl"
  shows "url_before_query (url_Parse (reqUrl @ g)) = url_before_query (url_Parse reqUrl)
         \<and> RawQuery (url_Parse (reqUrl @ g)) = RawQuery (url_Parse reqUrl) @ g
         \<and> url_fragment (url_Parse (reqUrl @ g)) = []"
proof -
  have h: "CHR ''#'' \<notin> set (reqUrl @ g)" using assms(1,2) by simp
  show ?thesis
    using url_Parse_parts [OF h] url_Parse_parts [OF assms(1)]
    by (simp add: Cut_append [OF assms(3)])
qed

lemma url_Parse_without_query:
  assumes "CHR ''#'' \<notin> set reqUrl" and "CHR ''#'' \<notin> set f" and "CHR ''?'' \<notin> set reqUrl"
  shows "url_before_query (url_Parse (reqUrl @ CHR ''?'' # f)) = reqUrl
         \<and> RawQuery (url_Parse (reqUrl @ CHR ''?'' # f)) = f
         \<and> url_fragment (url_Parse (reqUrl @ CHR ''?'' # f)) = []"
proof -
  have h: "CHR ''#'' \<notin> set (reqUrl @ CHR ''?'' # f)" using assms(1,2) by simp
  show ?thesis
    using url_Parse_parts [OF h]
    by (simp add: Cut_first [OF assms(3)])
qed

text \<open>The encoded form holds no \<^verbatim>\<open>#\<close>: \<^verbatim>\<open>QueryEscape\<close> writes it as \<^verbatim>\<open>%23\<close>.\<close>

lemma upperhex_nth: "k < 16 \<Longrightarrow> upperhex ! k \<in> set upperhex"
  by (rule nth_mem) (simp add: upperhex_def)

lemma escape_char_no_hash: "CHR ''#'' \<notin> set (escape_char c)"
proof -
  have "(of_char c :: nat) < 16 * 16" by simp
  then have a: "(of_char c :: nat) div 16 < 16"
    by (rule less_mult_imp_div_less)
  have b: "(of_char c :: nat) mod 16 < 16" by simp
  have h: "CHR ''#'' \<notin> set upperhex" by (simp add: upperhex_def)
  from upperhex_nth [OF a] upperhex_nth [OF b] h
  have "upperhex ! ((of_char c :: nat) div 16) \<noteq> CHR ''#''"
    and "upperhex ! ((of_char c :: nat) mod 16) \<noteq> CHR ''#''"
    by auto
  moreover have "shouldEscape CHR ''#''" by (simp add: shouldEscape_def)
  ultimately show ?thesis
    by (auto simp: escape_char_def)
qed

lemma QueryEscape_no_hash: "CHR ''#'' \<notin> set (QueryEscape s)"
  by (simp add: QueryEscape_def escape_char_no_hash)

lemma Join_no_hash:
  "(\<And>x. x \<in> set xs \<Longrightarrow> CHR ''#'' \<notin> set x) \<Longrightarrow> CHR ''#'' \<notin> set (Join xs ''&'')"
  by (induction xs "''&''" rule: Join.induct) auto

lemma Encode_no_hash: "CHR ''#'' \<notin> set (Encode v)"
  unfolding Encode_def
  by (rule Join_no_hash) (auto simp: QueryEscape_no_hash)

text \<open>
  For a status outside 200 to 299, \<^verbatim>\<open>CallRet\<close> returns an \<^verbatim>\<open>*ErrorInfo\<close> with the
  status and the request id whenever the key \<^verbatim>\<open>Content-Type\<close>, if present, is bound
  to at least one value.
\<close>

lemma CallRet_error_status:
  assumes "StatusCode resp < 200 \<or> 299 < StatusCode resp"
    and "Header resp ''Content-Type'' \<noteq> Some []"
  shows "\<exists>e. result (CallRet dec unm ret resp) = Returns (Some (Remote e))
           \<and> Code e = StatusCode resp
           \<and> Reqid e = Header_Get (Header resp) ''X-Reqid''"
proof -
  have s: "StatusCode resp sdiv 100 \<noteq> 2"
    using assms(1) by (auto simp: status_2xx)
  show ?thesis
    using s assms(2)
    by (auto simp: CallRet_def CallRet_body_def ResponseError_def parseError_def ReadAll_def
        Let_def split: option.splits list.splits prod.splits)
qed

section \<open>The claims\<close>

subsection \<open>C1\<close>

text \<open>
  C1, as amended. For every response with a status from 200 to 299, when the caller
  supplied no destination (nil) or \<^verbatim>\<open>ContentLength\<close> is 0, \<^verbatim>\<open>CallRet\<close> decodes
  nothing and returns no error for the status 200 only; for a status from 201 to 299 it
  returns an \<^verbatim>\<open>*ErrorInfo\<close> whose \<^verbatim>\<open>Code\<close> is the status, whose \<^verbatim>\<open>Reqid\<close> is the
  header \<^verbatim>\<open>X-Reqid\<close>, whose \<^verbatim>\<open>Err\<close> and \<^verbatim>\<open>Key\<close> are empty and whose
  \<^verbatim>\<open>Errno\<close> is 0. The destination is left as it was.
\<close>

theorem CallRet_2xx_without_payload:
  assumes "200 \<le> StatusCode resp" and "StatusCode resp \<le> 299"
    and "ret = None \<or> ContentLength resp = 0"
  shows "result (CallRet dec unm ret resp) =
           Returns (if StatusCode resp = 200 then None
                    else Some (Remote \<lparr>Err = [], Key = [],
                           Reqid = Header_Get (Header resp) ''X-Reqid'', Errno = 0,
                           Code = StatusCode resp\<rparr>))
         \<and> ret_after (CallRet dec unm ret resp) = ret"
proof -
  have s: "StatusCode resp sdiv 100 = 2"
    using assms(1,2) by (simp add: status_2xx)
  from assms(3) show ?thesis
    using s assms(2)
    by (auto simp: CallRet_def CallRet_body_def ResponseError_not_above_299
        split: option.splits)
qed

text \<open>The theorem at a 202 response with a request id and an empty body, and at a 200
  response with a body and no destination.\<close>

theorem CallRet_2xx_without_payload_witness:
  "result (CallRet decode_bool unmarshal_flat (Some False)
             (response_of 202 [''X-Reqid'' \<mapsto> [''r-17'']] [])) =
     Returns (Some (Remote \<lparr>Err = [], Key = [], Reqid = ''r-17'', Errno = 0, Code = 202\<rparr>))
   \<and> result (CallRet decode_bool unmarshal_flat None
             (response_of 200 Map.empty ''true'')) = Returns None"
  using CallRet_2xx_without_payload
          [of "response_of 202 [''X-Reqid'' \<mapsto> [''r-17'']] []" "Some False"
              decode_bool unmarshal_flat]
        CallRet_2xx_without_payload
          [of "response_of 200 Map.empty ''true''" None decode_bool unmarshal_flat]
  by (simp add: response_of_def Header_Get_def)

text \<open>The claim as written fails at a 204 response without a body and with a nil
  destination: the call returns an error.\<close>

theorem CallRet_204_counterexample:
  "result (CallRet decode_bool unmarshal_flat None (response_of 204 Map.empty [])) =
     Returns (Some (Remote \<lparr>Err = [], Key = [], Reqid = [], Errno = 0, Code = 204\<rparr>))
   \<and> result (CallRet decode_bool unmarshal_flat None (response_of 204 Map.empty []))
       \<noteq> Returns None"
  by (simp add: eval_CallRet)

subsection \<open>C2\<close>

text \<open>
  C2, as amended. For every response with the status 200, a destination that is not nil
  and a \<^verbatim>\<open>ContentLength\<close> other than 0, whose body the decoder decodes into the
  destination without an error, \<^verbatim>\<open>CallRet\<close> returns no error, the destination holds
  the decoded value, and the body is read to its end and closed.
\<close>

theorem CallRet_200_decodes:
  assumes "StatusCode resp = 200" and "ret = Some v" and "ContentLength resp \<noteq> 0"
    and "dec v (Body resp) = (None, v', n)"
  shows "result (CallRet dec unm ret resp) = Returns None
         \<and> ret_after (CallRet dec unm ret resp) = Some v'
         \<and> unread (Body (resp_after (CallRet dec unm ret resp))) = []
         \<and> is_closed (Body (resp_after (CallRet dec unm ret resp)))"
  using assms
  by (simp add: CallRet_def CallRet_body_def Decode_def Close_def Copy_Discard_def)

theorem CallRet_200_decodes_witness:
  "result (CallRet decode_bool unmarshal_flat (Some False)
             (response_of 200 [''Content-Type'' \<mapsto> [''application/json'']] ''true'')) =
     Returns None
   \<and> ret_after (CallRet decode_bool unmarshal_flat (Some False)
             (response_of 200 [''Content-Type'' \<mapsto> [''application/json'']] ''true'')) =
     Some True
   \<and> unread (Body (resp_after (CallRet decode_bool unmarshal_flat (Some False)
             (response_of 200 [''Content-Type'' \<mapsto> [''application/json'']] ''true'')))) = []
   \<and> is_closed (Body (resp_after (CallRet decode_bool unmarshal_flat (Some False)
             (response_of 200 [''Content-Type'' \<mapsto> [''application/json'']] ''true''))))"
  using CallRet_200_decodes
          [of "response_of 200 [''Content-Type'' \<mapsto> [''application/json'']] ''true''"
              "Some False" False decode_bool True 4 unmarshal_flat]
  by (simp add: response_of_def decode_bool_def)

text \<open>The claim as written fails at a 201 response with the body \<^verbatim>\<open>true\<close>: the
  destination is set and the call returns an error.\<close>

theorem CallRet_201_decoded_counterexample:
  "result (CallRet decode_bool unmarshal_flat (Some False)
             (response_of 201 [''Content-Type'' \<mapsto> [''application/json'']] ''true'')) =
     Returns (Some (Remote \<lparr>Err = [], Key = [], Reqid = [], Errno = 0, Code = 201\<rparr>))
   \<and> result (CallRet decode_bool unmarshal_flat (Some False)
             (response_of 201 [''Content-Type'' \<mapsto> [''application/json'']] ''true''))
       \<noteq> Returns None"
  by (simp add: eval_CallRet)

subsection \<open>C3\<close>

text \<open>
  C3. The claim: for every response with a status outside 200 to 299, \<^verbatim>\<open>CallRet\<close>
  returns an \<^verbatim>\<open>*ErrorInfo\<close> whose \<^verbatim>\<open>Code\<close> is the status and whose \<^verbatim>\<open>Reqid\<close> is
  the header \<^verbatim>\<open>X-Reqid\<close>. The code reads the request id with \<^verbatim>\<open>Header.Get\<close>, which
  copes with a key bound to no value, and the content type with \<^verbatim>\<open>ct[0]\<close>, which does
  not: at a 500 response whose key \<^verbatim>\<open>Content-Type\<close> is bound to the empty list the
  call panics and returns nothing.
\<close>

theorem CallRet_empty_Content_Type_panics:
  "result (CallRet decode_bool unmarshal_flat None
             (response_of 500 [''Content-Type'' \<mapsto> []] ''error'')) =
     Panics ''index out of range [0] with length 0''"
  by (simp add: eval_CallRet)

subsection \<open>C4\<close>

text \<open>
  C4, as amended. For every response with a status above 299, a \<^verbatim>\<open>ContentLength\<close>
  other than 0 and a header \<^verbatim>\<open>Content-Type\<close> with a first value, whose body is the
  text \<^verbatim>\<open>internal failure\<close>, read without an error and refused by the JSON decoder:
  the \<^verbatim>\<open>*ErrorInfo\<close> returned has \<^verbatim>\<open>Err\<close> equal to \<^verbatim>\<open>internal failure\<close> when that
  first value begins with \<^verbatim>\<open>application/json\<close>, and an empty \<^verbatim>\<open>Err\<close> under every
  other content type.
\<close>

theorem CallRet_internal_failure:
  assumes "299 < StatusCode resp" and "ContentLength resp \<noteq> 0"
    and "Header resp ''Content-Type'' = Some (ct # cts)"
    and "unread (Body resp) = ''internal failure''" and "read_err (Body resp) = None"
    and "unm ''internal failure'' = None"
  shows "result (CallRet dec unm ret resp) =
           Returns (Some (Remote
             \<lparr>Err = (if HasPrefix ct ''application/json'' then ''internal failure'' else []),
              Key = [], Reqid = Header_Get (Header resp) ''X-Reqid'', Errno = 0,
              Code = StatusCode resp\<rparr>))"
proof -
  have s: "StatusCode resp sdiv 100 \<noteq> 2"
    using assms(1) by (simp add: status_2xx)
  show ?thesis
    using s assms
    by (simp add: CallRet_def CallRet_body_def ResponseError_def parseError_def ReadAll_def)
qed

theorem CallRet_internal_failure_witness:
  "result (CallRet decode_bool unmarshal_flat None
             (response_of 503 [''Content-Type'' \<mapsto> [''application/json; charset=utf-8'']]
                ''internal failure'')) =
     Returns (Some (Remote
       \<lparr>Err = ''internal failure'', Key = [], Reqid = [], Errno = 0, Code = 503\<rparr>))"
  using CallRet_internal_failure
          [of "response_of 503 [''Content-Type'' \<mapsto> [''application/json; charset=utf-8'']]
                 ''internal failure''"
              "''application/json; charset=utf-8''" "[]" unmarshal_flat decode_bool None]
        unmarshal_internal_failure
  by (simp add: response_of_def Header_Get_def HasPrefix_def)

text \<open>The claim as written fails under the content type \<^verbatim>\<open>text/plain\<close>, and under
  a status below 200 whatever the content type: the body is not read and \<^verbatim>\<open>Err\<close>
  stays empty.\<close>

theorem CallRet_text_plain_counterexample:
  "result (CallRet decode_bool unmarshal_flat None
             (response_of 500 [''Content-Type'' \<mapsto> [''text/plain'']] ''internal failure'')) =
     Returns (Some (Remote \<lparr>Err = [], Key = [], Reqid = [], Errno = 0, Code = 500\<rparr>))
   \<and> result (CallRet decode_bool unmarshal_flat None
             (response_of 101 [''Content-Type'' \<mapsto> [''application/json'']]
                ''internal failure'')) =
     Returns (Some (Remote \<lparr>Err = [], Key = [], Reqid = [], Errno = 0, Code = 101\<rparr>))"
  by (simp add: eval_CallRet)

subsection \<open>C5\<close>

text \<open>
  C5, as amended. For every response with a status above 299, a \<^verbatim>\<open>ContentLength\<close>
  other than 0 and a first \<^verbatim>\<open>Content-Type\<close> value that begins with
  \<^verbatim>\<open>application/json\<close>, whose body is read without an error: if the body decodes into
  \<^verbatim>\<open>{error, key, errno}\<close> with a non-empty \<^verbatim>\<open>error\<close>, the \<^verbatim>\<open>*ErrorInfo\<close> has
  \<^verbatim>\<open>Err\<close>, \<^verbatim>\<open>Key\<close> and \<^verbatim>\<open>Errno\<close> equal to these members; if decoding fails or
  \<^verbatim>\<open>error\<close> is empty, \<^verbatim>\<open>Err\<close> is the text of the body, and \<^verbatim>\<open>Key\<close> and
  \<^verbatim>\<open>Errno\<close> stay empty.
\<close>

theorem CallRet_json_error_body:
  assumes "299 < StatusCode resp" and "ContentLength resp \<noteq> 0"
    and "Header resp ''Content-Type'' = Some (ct # cts)"
    and "HasPrefix ct ''application/json''"
    and "read_err (Body resp) = None"
  shows "(\<forall>j. unm (unread (Body resp)) = Some j \<and> ret_Err j \<noteq> [] \<longrightarrow>
            result (CallRet dec unm ret resp) =
              Returns (Some (Remote
                \<lparr>Err = ret_Err j, Key = ret_Key j, Reqid = Header_Get (Header resp) ''X-Reqid'',
                 Errno = ret_Errno j, Code = StatusCode resp\<rparr>)))
         \<and> (unm (unread (Body resp)) = None
              \<or> (\<exists>j. unm (unread (Body resp)) = Some j \<and> ret_Err j = []) \<longrightarrow>
            result (CallRet dec unm ret resp) =
              Returns (Some (Remote
                \<lparr>Err = unread (Body resp), Key = [], Reqid = Header_Get (Header resp) ''X-Reqid'',
                 Errno = 0, Code = StatusCode resp\<rparr>)))"
proof -
  have s: "StatusCode resp sdiv 100 \<noteq> 2"
    using assms(1) by (simp add: status_2xx)
  show ?thesis
    using s assms
    by (auto simp: CallRet_def CallRet_body_def ResponseError_def parseError_def ReadAll_def)
qed

text \<open>The theorem at the error body the spec quotes, under a 401 status, and at a body
  whose \<^verbatim>\<open>error\<close> member is empty.\<close>

theorem CallRet_json_error_body_witness:
  \<open>result (CallRet decode_bool unmarshal_flat None
             (response_of 401 [''Content-Type'' \<mapsto> [''application/json''],
                               ''X-Reqid'' \<mapsto> [''r-17'']] bad_token_json)) =
     Returns (Some (Remote
       \<lparr>Err = ''bad token'', Key = ''k1'', Reqid = ''r-17'', Errno = 612, Code = 401\<rparr>))
   \<and> result (CallRet decode_bool unmarshal_flat None
             (response_of 400 [''Content-Type'' \<mapsto> [''application/json'']]
                ''{"error":"","key":"k2"}'')) =
     Returns (Some (Remote
       \<lparr>Err = ''{"error":"","key":"k2"}'', Key = [], Reqid = [], Errno = 0, Code = 400\<rparr>))\<close>
  using CallRet_json_error_body
          [of \<open>response_of 401 [''Content-Type'' \<mapsto> [''application/json''],
                                ''X-Reqid'' \<mapsto> [''r-17'']] bad_token_json\<close>
              \<open>''application/json''\<close> \<open>[]\<close> unmarshal_flat decode_bool None]
        CallRet_json_error_body
          [of \<open>response_of 400 [''Content-Type'' \<mapsto> [''application/json'']]
                 ''{"error":"","key":"k2"}''\<close>
              \<open>''application/json''\<close> \<open>[]\<close> unmarshal_flat decode_bool None]
        unmarshal_bad_token unmarshal_empty_error
  by (simp add: response_of_def Header_Get_def HasPrefix_def bad_token_json_def)

text \<open>The claim as written fails at a status below 200: under the status 101 the body
  is not read and \<^verbatim>\<open>Err\<close> stays empty. And when reading the body ends in an error,
  \<^verbatim>\<open>Err\<close> is the message of that error, not the text of the body.\<close>

theorem CallRet_101_json_counterexample:
  "result (CallRet decode_bool unmarshal_flat None
             (response_of 101 [''Content-Type'' \<mapsto> [''application/json'']] bad_token_json)) =
     Returns (Some (Remote \<lparr>Err = [], Key = [], Reqid = [], Errno = 0, Code = 101\<rparr>))
   \<and> result (CallRet decode_bool unmarshal_flat None
             ((response_of 500 [''Content-Type'' \<mapsto> [''application/json'']] ''not json'')
                \<lparr>Body := \<lparr>unread = ''not json'', read_err = Some (Foreign ''unexpected EOF''),
                           is_closed = False\<rparr>\<rparr>)) =
     Returns (Some (Remote
       \<lparr>Err = ''unexpected EOF'', Key = [], Reqid = [], Errno = 0, Code = 500\<rparr>))"
  by (simp add: eval_CallRet)

subsection \<open>C6\<close>

text \<open>
  C6. For every request whose context is already cancelled when \<^verbatim>\<open>Do\<close> polls it,
  \<^verbatim>\<open>Do\<close> returns no response and the error of the context, and calls neither the
  client nor the transport.
\<close>

theorem Do_cancelled_before_dispatch:
  assumes "ctx_Err ctx = Some err"
  shows "returned (Do w g r (Some ctx) req) = Some (None, Some err)
         \<and> events (Do w g r (Some ctx) req) = []"
  using assms by (simp add: Do_def Let_def split: option.splits)

theorem Do_cancelled_before_dispatch_witness:
  "returned (Do example_world init_globals example_client
               (Some (Background\<lparr>ctx_Err := Some Canceled\<rparr>)) example_request) =
     Some (None, Some Canceled)
   \<and> events (Do example_world init_globals example_client
               (Some (Background\<lparr>ctx_Err := Some Canceled\<rparr>)) example_request) = []"
  using Do_cancelled_before_dispatch
          [of "Background\<lparr>ctx_Err := Some Canceled\<rparr>" Canceled
              example_world init_globals example_client example_request]
  by simp

text \<open>
  For comparison, the same request under a context that is not cancelled reaches the
  client once, and a cancellation in flight reaches the canceler found in the chain.
\<close>

lemma Do_example_dispatches:
  "events (Do example_world init_globals example_client None example_request) =
     [ClientDo (example_request\<lparr>req_Header := [''User-Agent'' \<mapsto> [''Golang qiniu/client package'']]\<rparr>)]
   \<and> returned (Do example_world init_globals example_client None example_request) =
     Some (Some (response_of 200 Map.empty []), None)"
proof -
  have t: "(case Transport example_client of None \<Rightarrow> DefaultTransport example_world | Some t \<Rightarrow> t) = 0"
    by (simp add: example_client_def example_world_def)
  show ?thesis
    unfolding Do_def Let_def t example_canceler
    by (simp add: Background_def example_request_def init_globals_def Header_Set_def
        example_client_def)
qed

lemma Do_example_cancels_in_flight:
  "events (Do example_world init_globals example_client
             (Some (Background\<lparr>ctx_Err_in_flight := Some DeadlineExceeded\<rparr>)) example_request) =
     [ClientDo (example_request\<lparr>req_Header := [''User-Agent'' \<mapsto> [''Golang qiniu/client package'']]\<rparr>),
      CancelRequest 2 (example_request\<lparr>req_Header := [''User-Agent'' \<mapsto> [''Golang qiniu/client package'']]\<rparr>)]
   \<and> returned (Do example_world init_globals example_client
             (Some (Background\<lparr>ctx_Err_in_flight := Some DeadlineExceeded\<rparr>)) example_request) =
     Some (None, Some DeadlineExceeded)"
proof -
  have t: "(case Transport example_client of None \<Rightarrow> DefaultTransport example_world | Some t \<Rightarrow> t) = 0"
    by (simp add: example_client_def example_world_def)
  show ?thesis
    unfolding Do_def Let_def t example_canceler
    by (simp add: Background_def example_request_def init_globals_def Header_Set_def
        example_client_def)
qed

subsection \<open>C7\<close>

text \<open>
  C7, as amended. For every form call that builds its request:
  \<^item> if the method is \<^verbatim>\<open>GET\<close>, \<^verbatim>\<open>HEAD\<close> or \<^verbatim>\<open>DELETE\<close>, the request has no body;
    and when the given URL holds no \<^verbatim>\<open>#\<close>, the query string of the request URL is the
    query string of the given URL, then \<^verbatim>\<open>&\<close>, then the encoded form, if the given URL
    contains \<^verbatim>\<open>?\<close>, and the encoded form alone otherwise, while the text before the
    query is that of the given URL and the fragment is empty;
  \<^item> for every other method, the request URL is the given URL, the body yields the
    encoded form (it is \<^verbatim>\<open>http.NoBody\<close> when the form is empty), \<^verbatim>\<open>ContentLength\<close>
    is its length, and \<^verbatim>\<open>application/x-www-form-urlencoded\<close> is added to the values
    of \<^verbatim>\<open>Content-Type\<close> behind those the caller supplied: it is the content type of
    the request, its first value, when the caller supplied none.
\<close>

theorem DoRequestWithForm_request:
  assumes "DoRequestWithForm w g r ctx method reqUrl headers data = Inr d"
  shows "if method = ''GET'' \<or> method = ''HEAD'' \<or> method = ''DELETE''
         then req_Body (req_after d) = None
              \<and> (CHR ''#'' \<notin> set reqUrl \<longrightarrow>
                    url_before_query (req_URL (req_after d)) = url_before_query (url_Parse reqUrl)
                  \<and> RawQuery (req_URL (req_after d)) =
                      (if ContainsRune reqUrl CHR ''?''
                       then RawQuery (url_Parse reqUrl) @ ''&'' @ Encode data
                       else Encode data)
                  \<and> url_fragment (req_URL (req_after d)) = [])
         else req_URL (req_after d) = url_Parse reqUrl
              \<and> req_Body (req_after d) =
                  Some (if Encode data = [] then NoBody else ReadCloser (Encode data))
              \<and> req_ContentLength (req_after d) = int (length (Encode data))
              \<and> req_Header (req_after d) ''Content-Type'' =
                  Some ((case headers of
                           None \<Rightarrow> []
                         | Some h \<Rightarrow> (case h ''Content-Type'' of None \<Rightarrow> [] | Some vs \<Rightarrow> vs))
                        @ [''application/x-www-form-urlencoded''])
              \<and> Header_Get (req_Header (req_after d)) ''Content-Type'' =
                  (case (case headers of
                           None \<Rightarrow> []
                         | Some h \<Rightarrow> (case h ''Content-Type'' of None \<Rightarrow> [] | Some vs \<Rightarrow> vs)) of
                     [] \<Rightarrow> ''application/x-www-form-urlencoded''
                   | v # vs \<Rightarrow> v)"
proof (cases "method = ''GET'' \<or> method = ''HEAD'' \<or> method = ''DELETE''")
  case True
  with assms obtain req where
    n: "newRequest w ctx method
          ((if ContainsRune reqUrl CHR ''?'' then reqUrl @ ''&'' else reqUrl @ ''?'') @ Encode data)
          (Some (Header_Add (case headers of None \<Rightarrow> Map.empty | Some h \<Rightarrow> h)
                   ''Content-Type'' ''application/x-www-form-urlencoded'')) None = Inr req"
    and d: "d = Do w g r (Some ctx) req"
    by (auto simp: DoRequestWithForm_def DoRequest_def Let_def split: sum.splits if_splits)
  from newRequest_Inr [OF n] d
  have u: "req_URL (req_after d) =
             url_Parse ((if ContainsRune reqUrl CHR ''?'' then reqUrl @ ''&'' else reqUrl @ ''?'')
                        @ Encode data)"
    and b: "req_Body (req_after d) = None"
    by (simp_all add: Do_keeps)
  have q: "url_before_query (req_URL (req_after d)) = url_before_query (url_Parse reqUrl)
           \<and> RawQuery (req_URL (req_after d)) =
               (if ContainsRune reqUrl CHR ''?''
                then RawQuery (url_Parse reqUrl) @ ''&'' @ Encode data
                else Encode data)
           \<and> url_fragment (req_URL (req_after d)) = []"
    if h: "CHR ''#'' \<notin> set reqUrl"
  proof (cases "CHR ''?'' \<in> set reqUrl")
    case True
    have "CHR ''#'' \<notin> set (''&'' @ Encode data)"
      using Encode_no_hash [of data] by simp
    from url_Parse_with_query [OF h this True] u True show ?thesis
      by (simp add: ContainsRune_def)
  next
    case False
    from url_Parse_without_query [OF h Encode_no_hash False, of data]
      url_Parse_parts [OF h] Cut_absent [OF False] u False
    show ?thesis
      by (simp add: ContainsRune_def)
  qed
  from True b q show ?thesis
    by simp
next
  case False
  with assms obtain req where
    n: "newRequest w ctx method reqUrl
          (Some (Header_Add (case headers of None \<Rightarrow> Map.empty | Some h \<Rightarrow> h)
                   ''Content-Type'' ''application/x-www-form-urlencoded''))
          (Some (StringsReader (Encode data))) = Inr req"
    and d: "d = Do w g r (Some ctx) (req\<lparr>req_ContentLength := int (length (Encode data))\<rparr>)"
    by (auto simp: DoRequestWithForm_def DoRequestWith_def Let_def split: sum.splits if_splits)
  from newRequest_Inr [OF n] d False show ?thesis
    by (auto simp: Do_keeps Header_Add_def Header_Get_def split: option.splits list.splits)
qed

text \<open>The request is built whenever \<^verbatim>\<open>http.NewRequest\<close> accepts the method and the URL
  and the context holds no credentials (or their signing succeeds).\<close>

lemma DoRequestWithForm_builds:
  assumes "\<And>u. NewRequest_err w method u = None" and "CredentialsFromContext ctx = None"
  shows "\<exists>d. DoRequestWithForm w g r ctx method reqUrl headers data = Inr d"
  using assms
  by (simp add: DoRequestWithForm_def DoRequest_def DoRequestWith_def newRequest_def
      http_NewRequest_def Let_def)

text \<open>The encoding of the form \<^verbatim>\<open>{"a":["1"]}\<close> of the spec, and of a form whose keys
  must be sorted and whose keys and values must be escaped.\<close>

lemma Encode_a_1: "Encode [(''a'', [''1''])] = ''a=1''"
  by (simp add: Encode_def QueryEscape_def escape_char_def shouldEscape_def)

lemma Encode_escapes:
  "Encode [(''b c'', [''1'', ''x&y'']), (''a'', [''/?#''])] = ''a=%2F%3F%23&b+c=1&b+c=x%26y''"
  by code_simp

lemma url_Parse_examples:
  "url_Parse ''http://x/y'' =
     \<lparr>url_before_query = ''http://x/y'', ForceQuery = False, RawQuery = [], url_fragment = []\<rparr>"
  "url_Parse ''http://x/y?z=2'' =
     \<lparr>url_before_query = ''http://x/y'', ForceQuery = False, RawQuery = ''z=2'',
      url_fragment = []\<rparr>"
  by (simp_all add: url_Parse_def Cut_def)

text \<open>
  The theorem at the calls the spec quotes, the form \<^verbatim>\<open>{"a":["1"]}\<close> sent by GET to
  \<^verbatim>\<open>http://x/y\<close> and to \<^verbatim>\<open>http://x/y?z=2\<close> and by POST, and at a form that needs
  sorting and escaping, sent by DELETE and by PUT.
\<close>

theorem DoRequestWithForm_request_witness:
  "url_before_query (req_URL (req_after (projr (DoRequestWithForm example_world init_globals
      example_client Background ''GET'' ''http://x/y'' None [(''a'', [''1''])])))) = ''http://x/y''
   \<and> RawQuery (req_URL (req_after (projr (DoRequestWithForm example_world init_globals
      example_client Background ''GET'' ''http://x/y'' None [(''a'', [''1''])])))) = ''a=1''
   \<and> req_Body (req_after (projr (DoRequestWithForm example_world init_globals
      example_client Background ''GET'' ''http://x/y'' None [(''a'', [''1''])]))) = None
   \<and> url_before_query (req_URL (req_after (projr (DoRequestWithForm example_world init_globals
      example_client Background ''GET'' ''http://x/y?z=2'' None [(''a'', [''1''])])))) = ''http://x/y''
   \<and> RawQuery (req_URL (req_after (projr (DoRequestWithForm example_world init_globals
      example_client Background ''GET'' ''http://x/y?z=2'' None [(''a'', [''1''])])))) = ''z=2&a=1''
   \<and> req_Body (req_after (projr (DoRequestWithForm example_world init_globals
      example_client Background ''POST'' ''http://x/y'' None [(''a'', [''1''])]))) =
       Some (ReadCloser ''a=1'')
   \<and> Header_Get (req_Header (req_after (projr (DoRequestWithForm example_world init_globals
      example_client Background ''POST'' ''http://x/y'' None [(''a'', [''1''])])))) ''Content-Type'' =
       ''application/x-www-form-urlencoded''
   \<and> RawQuery (req_URL (req_after (projr (DoRequestWithForm example_world init_globals
      example_client Background ''DELETE'' ''http://x/y?z=2'' None
      [(''b c'', [''1'', ''x&y'']), (''a'', [''/?#''])])))) = ''z=2&a=%2F%3F%23&b+c=1&b+c=x%26y''
   \<and> req_Body (req_after (projr (DoRequestWithForm example_world init_globals
      example_client Background ''PUT'' ''http://x/y'' None
      [(''b c'', [''1'', ''x&y'']), (''a'', [''/?#''])]))) =
       Some (ReadCloser ''a=%2F%3F%23&b+c=1&b+c=x%26y'')
   \<and> req_ContentLength (req_after (projr (DoRequestWithForm example_world init_globals
      example_client Background ''PUT'' ''http://x/y'' None
      [(''b c'', [''1'', ''x&y'']), (''a'', [''/?#''])]))) = 27"
proof -
  let ?call = "DoRequestWithForm example_world init_globals example_client Background"
  let ?form = "[(''b c'', [''1'', ''x&y'']), (''a'', [''/?#''])]"
  have 1: "?call ''GET'' ''http://x/y'' None [(''a'', [''1''])] =
             Inr (projr (?call ''GET'' ''http://x/y'' None [(''a'', [''1''])]))"
    by (simp add: DoRequestWithForm_def DoRequest_def newRequest_def http_NewRequest_def
        example_world_def Background_def Let_def)
  have 2: "?call ''GET'' ''http://x/y?z=2'' None [(''a'', [''1''])] =
             Inr (projr (?call ''GET'' ''http://x/y?z=2'' None [(''a'', [''1''])]))"
    by (simp add: DoRequestWithForm_def DoRequest_def newRequest_def http_NewRequest_def
        example_world_def Background_def Let_def)
  have 3: "?call ''POST'' ''http://x/y'' None [(''a'', [''1''])] =
             Inr (projr (?call ''POST'' ''http://x/y'' None [(''a'', [''1''])]))"
    by (simp add: DoRequestWithForm_def DoRequestWith_def newRequest_def http_NewRequest_def
        example_world_def Background_def Let_def)
  have 4: "?call ''DELETE'' ''http://x/y?z=2'' None ?form =
             Inr (projr (?call ''DELETE'' ''http://x/y?z=2'' None ?form))"
    by (simp add: DoRequestWithForm_def DoRequest_def newRequest_def http_NewRequest_def
        example_world_def Background_def Let_def)
  have 5: "?call ''PUT'' ''http://x/y'' None ?form =
             Inr (projr (?call ''PUT'' ''http://x/y'' None ?form))"
    by (simp add: DoRequestWithForm_def DoRequestWith_def newRequest_def http_NewRequest_def
        example_world_def Background_def Let_def)
  from DoRequestWithForm_request [OF 1] DoRequestWithForm_request [OF 2]
    DoRequestWithForm_request [OF 3] DoRequestWithForm_request [OF 4]
    DoRequestWithForm_request [OF 5]
  show ?thesis
    by (simp add: Encode_a_1 Encode_escapes ContainsRune_def url_Parse_examples)
qed

text \<open>
  The claim as written fails in two ways. When the caller supplies a content type, the
  form content type is a second value behind it, and the content type of the request
  stays the caller's. And when the given URL has a fragment, the form is written behind
  the fragment: the query string of the request URL does not receive it.
\<close>

theorem DoRequestWithForm_counterexample:
  "(case DoRequestWithForm example_world init_globals example_client Background ''POST''
           ''http://x/y'' (Some [''Content-Type'' \<mapsto> [''text/plain'']]) [(''a'', [''1''])] of
      Inl err \<Rightarrow> False
    | Inr d \<Rightarrow>
        req_Header (req_after d) ''Content-Type'' =
          Some [''text/plain'', ''application/x-www-form-urlencoded'']
        \<and> Header_Get (req_Header (req_after d)) ''Content-Type'' = ''text/plain'')
   \<and> (case DoRequestWithForm example_world init_globals example_client Background ''GET''
           ''http://x/y#top'' None [(''a'', [''1''])] of
      Inl err \<Rightarrow> False
    | Inr d \<Rightarrow>
        url_before_query (req_URL (req_after d)) = ''http://x/y''
        \<and> RawQuery (req_URL (req_after d)) = []
        \<and> url_fragment (req_URL (req_after d)) = ''top?a=1'')"
  by (simp add: DoRequestWithForm_def DoRequest_def DoRequestWith_def newRequest_def
      http_NewRequest_def example_world_def Background_def Let_def Do_keeps Encode_a_1
      ContainsRune_def Header_Add_def Header_Get_def url_Parse_def Cut_def)

subsection \<open>C8\<close>

text \<open>
  C8. For every call of \<^verbatim>\<open>CallRet\<close>, whatever the decoders answer and however the
  call ends (no error, a decoding error, an \<^verbatim>\<open>*ErrorInfo\<close>, or a panic), the body of
  the response has been read to its end and closed when the call is over.
\<close>

theorem CallRet_drains_and_closes:
  "unread (Body (resp_after (CallRet dec unm ret resp))) = []
   \<and> is_closed (Body (resp_after (CallRet dec unm ret resp)))"
  by (simp add: CallRet_def Close_def Copy_Discard_def split: prod.splits)

text \<open>The theorem at a 200 response whose body the decoder refuses: the call returns
  the decoding error, and the body is read and closed.\<close>

theorem CallRet_drains_and_closes_witness:
  "result (CallRet decode_bool unmarshal_flat (Some False)
             (response_of 200 Map.empty ''maybe'')) =
     Returns (Some (Foreign ''json: cannot decode the body into a bool''))
   \<and> unread (Body (resp_after (CallRet decode_bool unmarshal_flat (Some False)
             (response_of 200 Map.empty ''maybe'')))) = []
   \<and> is_closed (Body (resp_after (CallRet decode_bool unmarshal_flat (Some False)
             (response_of 200 Map.empty ''maybe''))))"
  using CallRet_drains_and_closes
          [of decode_bool unmarshal_flat "Some False" "response_of 200 Map.empty ''maybe''"]
  by (simp add: eval_CallRet)

subsection \<open>C9\<close>

text \<open>
  \<^verbatim>\<open>Do\<close> sets the header \<^verbatim>\<open>User-Agent\<close> of a request that has none to the value of
  the package variable \<^verbatim>\<open>UserAgent\<close>, and \<^verbatim>\<open>SetAppName\<close> writes to that variable the
  identifier made of the library version, the system, the architecture, the application
  name and the version of the runtime. Until \<^verbatim>\<open>SetAppName\<close> is called the variable
  holds \<^verbatim>\<open>Golang qiniu/client package\<close>.
\<close>

lemma Do_sets_User_Agent:
  assumes "req_Header req ''User-Agent'' = None"
  shows "req_Header (req_after (Do w g r ctx req)) ''User-Agent'' = Some [UserAgent g]"
  using assms
  by (simp add: req_after_Do Let_def Header_Set_def split: option.splits)

lemma SetAppName_UserAgent:
  "UserAgent (snd (SetAppName b userApp g)) =
     ''QiniuGo/'' @ conf_Version b @ '' ('' @ GOOS b @ ''; '' @ GOARCH b @ ''; ''
       @ userApp @ '') '' @ runtime_Version b"
  by (simp add: SetAppName_def)

lemma UserAgent_initially: "UserAgent init_globals = ''Golang qiniu/client package''"
  by (simp add: init_globals_def)

text \<open>
  C9. The claim: for every dispatch of a request without the header \<^verbatim>\<open>User-Agent\<close>,
  that header is set to the build identifier with the application name the caller
  supplied, which is validated to hold only characters of \<^verbatim>\<open>[A-Za-z0-9_ -.]\<close>. The
  comment on \<^verbatim>\<open>SetAppName\<close> names this character set and the function returns an
  \<^verbatim>\<open>error\<close>, but it checks nothing: the name \<^verbatim>\<open>my;app(1)\<close>, which is outside the
  set, is accepted with a nil error and sent in the header as it is.
\<close>

theorem SetAppName_accepts_invalid_name:
  "\<not> userApp_wellformed ''my;app(1)''
   \<and> fst (SetAppName example_build ''my;app(1)'' init_globals) = None
   \<and> req_Header (req_after (Do example_world
         (snd (SetAppName example_build ''my;app(1)'' init_globals)) example_client None
         example_request)) ''User-Agent'' =
       Some [''QiniuGo/7.0.0 (linux; amd64; my;app(1)) go1.13'']"
  by (simp add: userApp_wellformed_def userApp_char_def req_after_Do Let_def Background_def
      example_request_def example_build_def SetAppName_def init_globals_def Header_Set_def)

subsection \<open>C10\<close>

text \<open>
  C10. For every response with a status from 201 to 299, a destination that is not nil
  and a \<^verbatim>\<open>ContentLength\<close> other than 0, whose body the decoder decodes without an
  error, \<^verbatim>\<open>CallRet\<close> stores the decoded value in the destination and returns an
  \<^verbatim>\<open>*ErrorInfo\<close> with empty \<^verbatim>\<open>Err\<close> and \<^verbatim>\<open>Key\<close>, \<^verbatim>\<open>Errno\<close> zero and \<^verbatim>\<open>Code\<close>
  the status.
\<close>

theorem CallRet_2xx_decodes_and_fails:
  assumes "201 \<le> StatusCode resp" and "StatusCode resp \<le> 299"
    and "ret = Some v" and "ContentLength resp \<noteq> 0"
    and "dec v (Body resp) = (None, v', n)"
  shows "result (CallRet dec unm ret resp) =
           Returns (Some (Remote \<lparr>Err = [], Key = [],
             Reqid = Header_Get (Header resp) ''X-Reqid'', Errno = 0, Code = StatusCode resp\<rparr>))
         \<and> ret_after (CallRet dec unm ret resp) = Some v'"
proof -
  have s: "StatusCode resp sdiv 100 = 2" "StatusCode resp \<noteq> 200"
    using assms(1,2) by (simp_all add: status_2xx)
  show ?thesis
    using s assms(2-5)
    by (simp add: CallRet_def CallRet_body_def Decode_def ResponseError_not_above_299)
qed

theorem CallRet_2xx_decodes_and_fails_witness:
  "result (CallRet decode_bool unmarshal_flat (Some True)
             (response_of 298 [''X-Reqid'' \<mapsto> [''r-18'']] ''false'')) =
     Returns (Some (Remote \<lparr>Err = [], Key = [], Reqid = ''r-18'', Errno = 0, Code = 298\<rparr>))
   \<and> ret_after (CallRet decode_bool unmarshal_flat (Some True)
             (response_of 298 [''X-Reqid'' \<mapsto> [''r-18'']] ''false'')) = Some False"
  using CallRet_2xx_decodes_and_fails
          [of "response_of 298 [''X-Reqid'' \<mapsto> [''r-18'']] ''false''" "Some True" True
              decode_bool False 5 unmarshal_flat]
  by (simp add: response_of_def decode_bool_def Header_Get_def)

end
